theory Spec2Isabelle
  imports Main
begin

section \<open>JavaScript values as the relay sees them\<close>

text \<open>
  The relay in \<^verbatim>\<open>server.js\<close> handles values it never inspects beyond a few
  property reads: parsed JSON documents and the module variable \<^verbatim>\<open>storedToken\<close>. A
  value is \<^verbatim>\<open>undefined\<close> or a JSON document. An object is the list of its own enumerable
  properties in enumeration order.

  A string stands for the UTF-8 bytes of its characters; a surrogate that is not part of
  a pair is written as the three bytes of its code point. A number is kept as the text
  JavaScript prints for it (\<^verbatim>\<open>30\<close>, \<^verbatim>\<open>0.5\<close>, \<^verbatim>\<open>1e+21\<close>), which fixes the number up to the
  sign of zero: the relay tests numbers for truth, prints them and passes them on, and
  does nothing else with them.
\<close>

datatype jsval =
    JUndefined
  | JNull
  | JBool bool
  | JNum string
  | JStr string
  | JArr "jsval list"
  | JObj "(string \<times> jsval) list"

text \<open>
  JavaScript's ToBoolean, as applied by \<^verbatim>\<open>!storedToken\<close>. The falsy numbers are the two
  zeros, both printed \<^verbatim>\<open>0\<close>, and \<^verbatim>\<open>NaN\<close>.
\<close>

fun truthy :: "jsval \<Rightarrow> bool" where
  "truthy JUndefined = False"
| "truthy JNull = False"
| "truthy (JBool b) = b"
| "truthy (JNum n) = (n \<noteq> ''0'' \<and> n \<noteq> ''NaN'')"
| "truthy (JStr s) = (s \<noteq> [])"
| "truthy (JArr xs) = True"
| "truthy (JObj fs) = True"

fun join :: "string \<Rightarrow> string list \<Rightarrow> string" where
  "join sep [] = []"
| "join sep [x] = x"
| "join sep (x # y # ys) = x @ sep @ join sep (y # ys)"

text \<open>
  JavaScript's ToString, as a template literal \<^verbatim>\<open>`${v}`\<close> applies it to a value that
  came from \<^verbatim>\<open>JSON.parse\<close>; \<open>None\<close> when it throws a TypeError. An array joins its
  elements with commas, where \<^verbatim>\<open>null\<close> and \<^verbatim>\<open>undefined\<close> elements give the empty string.
  An object is printed by the \<^verbatim>\<open>toString\<close> it inherits, unless it has a property of that
  name of its own: a parsed property is never a function, the inherited \<^verbatim>\<open>valueOf\<close>
  returns the object itself, and the conversion throws.
\<close>

fun to_string :: "jsval \<Rightarrow> string option" where
  "to_string JUndefined = Some ''undefined''"
| "to_string JNull = Some ''null''"
| "to_string (JBool b) = Some (if b then ''true'' else ''false'')"
| "to_string (JNum n) = Some n"
| "to_string (JStr s) = Some s"
| "to_string (JArr xs) =
     map_option (join '','')
       (those (map (\<lambda>x. if x = JUndefined \<or> x = JNull then Some [] else to_string x) xs))"
| "to_string (JObj fs) =
     (if ''toString'' \<in> fst ` set fs then None else Some ''[object Object]'')"

text \<open>
  Reading a property \<^verbatim>\<open>v.name\<close>. On \<^verbatim>\<open>undefined\<close> and \<^verbatim>\<open>null\<close> the read throws a
  TypeError (\<open>None\<close>). The relay reads only the names \<^verbatim>\<open>access_token\<close> and \<^verbatim>\<open>active\<close>
  from JSON documents; neither is an index, \<^verbatim>\<open>length\<close> or a property of a built-in
  prototype, so the read on a primitive, a string or an array gives \<^verbatim>\<open>undefined\<close>.
\<close>

definition lookup :: "(string \<times> jsval) list \<Rightarrow> string \<Rightarrow> jsval" where
  "lookup fs name = (case map_of fs name of None \<Rightarrow> JUndefined | Some v \<Rightarrow> v)"

fun get_prop :: "jsval \<Rightarrow> string \<Rightarrow> jsval option" where
  "get_prop JUndefined name = None"
| "get_prop JNull name = None"
| "get_prop (JObj fs) name = Some (lookup fs name)"
| "get_prop v name = Some JUndefined"

text \<open>Decimal rendering of an index, as an array index is written as a property name.\<close>

definition digit_char :: "nat \<Rightarrow> char" where
  "digit_char d = char_of (48 + d)"

function show_nat :: "nat \<Rightarrow> string" where
  "show_nat n = (if n < 10 then [digit_char n] else show_nat (n div 10) @ [digit_char (n mod 10)])"
  by pat_completeness auto
termination
  by (relation "measure (\<lambda>n. n)") auto

declare show_nat.simps [simp del]

text \<open>
  The UTF-16 code units of a string, each as a string of its own: what indexing a
  JavaScript string gives. A character of one, two or three bytes is one unit. A
  character of four bytes is a pair of surrogates, each written as the three bytes of its
  code point.
\<close>

definition utf8_unit :: "nat \<Rightarrow> string" where
  "utf8_unit u =
     [char_of (224 + u div 4096), char_of (128 + (u div 64) mod 64), char_of (128 + u mod 64)]"

definition surrogate_pair :: "char \<Rightarrow> char \<Rightarrow> char \<Rightarrow> char \<Rightarrow> string list" where
  "surrogate_pair a b c d =
     (let cp = ((of_char a :: nat) mod 8) * 262144 + ((of_char b :: nat) mod 64) * 4096
               + ((of_char c :: nat) mod 64) * 64 + (of_char d :: nat) mod 64;
          v = cp - 65536
      in [utf8_unit (55296 + v div 1024), utf8_unit (56320 + v mod 1024)])"

function code_units :: "string \<Rightarrow> string list" where
  "code_units [] = []"
| "code_units (a # s) =
     (if (of_char a :: nat) < 192 then [a] # code_units s
      else if (of_char a :: nat) < 224 then (a # take 1 s) # code_units (drop 1 s)
      else if (of_char a :: nat) < 240 then (a # take 2 s) # code_units (drop 2 s)
      else (case s of
              b # c # d # rest \<Rightarrow> surrogate_pair a b c d @ code_units rest
            | _ \<Rightarrow> [a # s]))"
  by pat_completeness auto
termination
  by (relation "measure length") auto

text \<open>
  The own enumerable properties that an object spread \<^verbatim>\<open>{...v}\<close> copies: the fields of
  an object, the indexed elements of an array, the indexed code units of a string, and
  nothing for \<^verbatim>\<open>undefined\<close>, \<^verbatim>\<open>null\<close>, a boolean or a number.
\<close>

definition indexed :: "jsval list \<Rightarrow> (string \<times> jsval) list" where
  "indexed xs = map (\<lambda>i. (show_nat i, xs ! i)) [0..<length xs]"

fun own_props :: "jsval \<Rightarrow> (string \<times> jsval) list" where
  "own_props (JObj fs) = fs"
| "own_props (JArr xs) = indexed xs"
| "own_props (JStr s) = indexed (map JStr (code_units s))"
| "own_props v = []"

text \<open>
  Writing a property in an object literal after a spread: an existing key keeps its place
  and takes the new value, a new key goes to the end.
\<close>

fun set_prop :: "string \<Rightarrow> jsval \<Rightarrow> (string \<times> jsval) list \<Rightarrow> (string \<times> jsval) list" where
  "set_prop k v [] = [(k, v)]"
| "set_prop k v ((k', v') # fs) = (if k = k' then (k, v) # fs else (k', v') # set_prop k v fs)"

section \<open>Request parameters\<close>

text \<open>
  The framework's query parser gives \<^verbatim>\<open>req.query\<close> a string for a parameter that occurs
  once and the array of its values for a repeated one; a parameter that does not occur is
  \<^verbatim>\<open>undefined\<close> (\<open>None\<close>). Route parameters and environment variables are strings, or
  \<^verbatim>\<open>undefined\<close> when absent. These strings come out of the URL decoder and the process
  environment and hold no lone surrogate.
\<close>

datatype qval = QStr string | QArr "string list"

text \<open>ToString of a parameter, as a template literal and \<^verbatim>\<open>URLSearchParams\<close> apply it.\<close>

fun qval_string :: "qval \<Rightarrow> string" where
  "qval_string (QStr x) = x"
| "qval_string (QArr xs) = join '','' xs"

fun param_string :: "qval option \<Rightarrow> string" where
  "param_string None = ''undefined''"
| "param_string (Some v) = qval_string v"

text \<open>ToBoolean of a parameter, as \<^verbatim>\<open>!user\<close> applies it: an array is truthy.\<close>

fun param_truthy :: "qval option \<Rightarrow> bool" where
  "param_truthy None = False"
| "param_truthy (Some (QStr x)) = (x \<noteq> [])"
| "param_truthy (Some (QArr xs)) = True"

text \<open>A parameter as a value inside an object handed to \<^verbatim>\<open>JSON.stringify\<close>.\<close>

fun param_json :: "qval option \<Rightarrow> jsval" where
  "param_json None = JUndefined"
| "param_json (Some (QStr x)) = JStr x"
| "param_json (Some (QArr xs)) = JArr (map JStr xs)"

fun opt_string :: "string option \<Rightarrow> string" where
  "opt_string None = ''undefined''"
| "opt_string (Some x) = x"

fun opt_json :: "string option \<Rightarrow> jsval" where
  "opt_json None = JUndefined"
| "opt_json (Some x) = JStr x"

section \<open>URL encoding\<close>

definition hex_digit :: "nat \<Rightarrow> char" where
  "hex_digit d = (if d < 10 then char_of (48 + d) else char_of (55 + d))"

definition percent_byte :: "char \<Rightarrow> string" where
  "percent_byte c =
     [CHR ''%'', hex_digit ((of_char c :: nat) div 16), hex_digit ((of_char c :: nat) mod 16)]"

definition is_alnum :: "char \<Rightarrow> bool" where
  "is_alnum c =
     (let n = (of_char c :: nat)
      in (48 \<le> n \<and> n \<le> 57) \<or> (65 \<le> n \<and> n \<le> 90) \<or> (97 \<le> n \<and> n \<le> 122))"

text \<open>
  \<^verbatim>\<open>encodeURIComponent\<close>: every byte of the UTF-8 form is escaped except the letters,
  the digits and \<^verbatim>\<open>- _ . ! ~ * ' ( )\<close>.
\<close>

definition uri_unreserved :: "char \<Rightarrow> bool" where
  "uri_unreserved c = (is_alnum c \<or> c \<in> set ''-_.!~*'' \<or> c = CHR 0x27 \<or> c \<in> set ''()'')"

definition encodeURIComponent :: "string \<Rightarrow> string" where
  "encodeURIComponent s = concat (map (\<lambda>c. if uri_unreserved c then [c] else percent_byte c) s)"

text \<open>
  \<^verbatim>\<open>new URLSearchParams(obj).toString()\<close>: each own property of the object becomes a
  name and value pair, the value converted by ToString; the pairs are serialised as
  \<^verbatim>\<open>application/x-www-form-urlencoded\<close>, where letters, digits and \<^verbatim>\<open>* - . _\<close> stay, a
  space becomes \<^verbatim>\<open>+\<close> and every other byte is escaped.
\<close>

definition form_byte :: "char \<Rightarrow> string" where
  "form_byte c =
     (if is_alnum c \<or> c \<in> set ''*-._'' then [c]
      else if c = CHR '' '' then ''+''
      else percent_byte c)"

definition form_encode :: "string \<Rightarrow> string" where
  "form_encode s = concat (map form_byte s)"

definition form_serialize :: "(string \<times> string) list \<Rightarrow> string" where
  "form_serialize ps = join ''&'' (map (\<lambda>(k, v). form_encode k @ ''='' @ form_encode v) ps)"

definition URLSearchParams :: "(string \<times> qval) list \<Rightarrow> (string \<times> string) list" where
  "URLSearchParams obj = map (\<lambda>(k, v). (k, qval_string v)) obj"

section \<open>Requests, the upstream API and replies\<close>

text \<open>
  What a handler reads of the inbound request: \<^verbatim>\<open>req.query\<close>, \<^verbatim>\<open>req.params\<close> and
  \<^verbatim>\<open>req.body\<close> (\<^verbatim>\<open>undefined\<close> when the request has none).
\<close>

record request =
  query :: "(string \<times> qval) list"
  params :: "(string \<times> string) list"
  body :: jsval

text \<open>
  One call of \<^verbatim>\<open>fetch(url, options)\<close>. \<open>http_method\<close> is the \<^verbatim>\<open>method\<close> option, GET when
  the options give none. \<open>json_body\<close> is the value handed to \<^verbatim>\<open>JSON.stringify\<close> for the
  \<^verbatim>\<open>body\<close> option, when the options have one.
\<close>

record upstream_request =
  url :: string
  http_method :: string
  headers :: "(string \<times> string) list"
  json_body :: "jsval option"

text \<open>
  What the awaited call gives: \<^verbatim>\<open>fetch\<close> rejects, or resolves to a response with a
  status whose \<^verbatim>\<open>json()\<close> rejects (\<open>None\<close>) or resolves to a document.
\<close>

datatype fetch_result = FetchThrows | Response nat "jsval option"

type_synonym fetch = "upstream_request \<Rightarrow> fetch_result"

definition ok :: "nat \<Rightarrow> bool" where
  "ok st = (200 \<le> st \<and> st \<le> 299)"

text \<open>The process environment variables the OAuth routes read; an unset one is \<^verbatim>\<open>undefined\<close>.\<close>

record env =
  CLIENT_ID :: "string option"
  CLIENT_SECRET :: "string option"
  REDIRECT_URI :: "string option"

text \<open>
  What the handler does with \<^verbatim>\<open>reply\<close>: \<^verbatim>\<open>reply.status(n).send(v)\<close>, where
  \<^verbatim>\<open>reply.send(v)\<close> alone has the default status 200, or \<^verbatim>\<open>reply.redirect(url)\<close>.
  \<^verbatim>\<open>reply.status(n)\<close> accepts the codes from 100 to 599 and throws on any other.
\<close>

datatype reply = Send nat jsval | Redirect string

fun status :: "reply \<Rightarrow> nat" where
  "status (Send n v) = n"
| "status (Redirect u) = 302"

definition accepted_status :: "nat \<Rightarrow> bool" where
  "accepted_status st = (100 \<le> st \<and> st \<le> 599)"

text \<open>The module state: \<^verbatim>\<open>let storedToken = null\<close>.\<close>

record server =
  storedToken :: jsval

definition initial :: server where
  "initial = \<lparr>storedToken = JNull\<rparr>"

text \<open>
  The outcome of one handler run: the reply, the module state afterwards, and the
  upstream calls issued, in order.
\<close>

record result =
  reply :: reply
  state :: server
  calls :: "upstream_request list"

definition error_body :: "string \<Rightarrow> jsval" where
  "error_body msg = JObj [(''error'', JStr msg)]"

text \<open>
  The headers of a forwarded call, from the rendered token; \<open>None\<close> when rendering the
  stored token in \<^verbatim>\<open>`Bearer ${storedToken}`\<close> throws.
\<close>

definition bearer :: "string \<Rightarrow> (string \<times> string) list" where
  "bearer token = [(''Authorization'', ''Bearer '' @ token), (''Content-Type'', ''application/json'')]"

definition bearer_headers :: "jsval \<Rightarrow> (string \<times> string) list option" where
  "bearer_headers token = map_option bearer (to_string token)"

definition no_token :: "server \<Rightarrow> result" where
  "no_token s = \<lparr>reply = Send 401 (error_body ''No token stored yet''), state = s, calls = []\<rparr>"

section \<open>The route handlers\<close>

text \<open>
  Each handler of \<^verbatim>\<open>server.js\<close> is a function of the upstream API (what \<^verbatim>\<open>fetch\<close>
  gives for each call), the module state and the request. A \<^verbatim>\<open>try\<close> block whose body
  throws, while the arguments of \<^verbatim>\<open>fetch\<close> are built, at the \<^verbatim>\<open>fetch\<close>, at
  \<^verbatim>\<open>response.json()\<close>, at a property read or at \<^verbatim>\<open>reply.status\<close>, ends in its \<^verbatim>\<open>catch\<close>
  branch.
\<close>

definition failed :: "string \<Rightarrow> server \<Rightarrow> upstream_request list \<Rightarrow> result" where
  "failed msg s cs = \<lparr>reply = Send 500 (error_body msg), state = s, calls = cs\<rparr>"

text \<open>\<^verbatim>\<open>fastify.get("/auth")\<close>\<close>

definition get_auth :: "env \<Rightarrow> fetch \<Rightarrow> server \<Rightarrow> request \<Rightarrow> result" where
  "get_auth e fetch s req =
     (let authorizeUrl =
            ''https://auth.calendly.com/oauth/authorize?response_type=code&client_id=''
            @ opt_string (CLIENT_ID e) @ ''&redirect_uri='' @ opt_string (REDIRECT_URI e)
      in \<lparr>reply = Redirect authorizeUrl, state = s, calls = []\<rparr>)"

text \<open>\<^verbatim>\<open>fastify.get("/callback")\<close>\<close>

definition get_callback :: "env \<Rightarrow> fetch \<Rightarrow> server \<Rightarrow> request \<Rightarrow> result" where
  "get_callback e fetch s req =
     (let code = map_of (query req) ''code'';
          call = \<lparr>url = ''https://auth.calendly.com/oauth/token'',
                  http_method = ''POST'',
                  headers = [(''Content-Type'', ''application/json'')],
                  json_body = Some (JObj
                    [(''grant_type'', JStr ''authorization_code''),
                     (''client_id'', opt_json (CLIENT_ID e)),
                     (''client_secret'', opt_json (CLIENT_SECRET e)),
                     (''code'', param_json code),
                     (''redirect_uri'', opt_json (REDIRECT_URI e))])\<rparr>
      in case fetch call of
           FetchThrows \<Rightarrow> failed ''Token exchange failed'' s [call]
         | Response st None \<Rightarrow> failed ''Token exchange failed'' s [call]
         | Response st (Some data) \<Rightarrow>
             (case get_prop data ''access_token'' of
                None \<Rightarrow> failed ''Token exchange failed'' s [call]
              | Some access_token \<Rightarrow>
                  \<lparr>reply = Redirect ''/dashboard.html'',
                   state = s\<lparr>storedToken := access_token\<rparr>,
                   calls = [call]\<rparr>))"

text \<open>\<^verbatim>\<open>fastify.get("/me")\<close>\<close>

definition get_me :: "fetch \<Rightarrow> server \<Rightarrow> request \<Rightarrow> result" where
  "get_me fetch s req =
     (let token = map_of (query req) ''token'';
          call = \<lparr>url = ''https://api.calendly.com/users/me'',
                  http_method = ''GET'',
                  headers = bearer (param_string token),
                  json_body = None\<rparr>
      in case fetch call of
           FetchThrows \<Rightarrow> failed ''Failed to fetch user info'' s [call]
         | Response st None \<Rightarrow> failed ''Failed to fetch user info'' s [call]
         | Response st (Some data) \<Rightarrow> \<lparr>reply = Send 200 data, state = s, calls = [call]\<rparr>)"

text \<open>\<^verbatim>\<open>fastify.get("/me-from-store")\<close>\<close>

definition get_me_from_store :: "fetch \<Rightarrow> server \<Rightarrow> request \<Rightarrow> result" where
  "get_me_from_store fetch s req =
     (if \<not> truthy (storedToken s) then no_token s
      else
        case bearer_headers (storedToken s) of
          None \<Rightarrow> failed ''Failed to fetch user info'' s []
        | Some hs \<Rightarrow>
            (let call = \<lparr>url = ''https://api.calendly.com/users/me'',
                         http_method = ''GET'',
                         headers = hs,
                         json_body = None\<rparr>
             in case fetch call of
                  FetchThrows \<Rightarrow> failed ''Failed to fetch user info'' s [call]
                | Response st None \<Rightarrow> failed ''Failed to fetch user info'' s [call]
                | Response st (Some data) \<Rightarrow>
                    \<lparr>reply = Send 200 data, state = s, calls = [call]\<rparr>))"

text \<open>\<^verbatim>\<open>fastify.get("/locations")\<close>\<close>

definition get_locations :: "fetch \<Rightarrow> server \<Rightarrow> request \<Rightarrow> result" where
  "get_locations fetch s req =
     (if \<not> truthy (storedToken s) then no_token s
      else
        let user = map_of (query req) ''user''
        in if \<not> param_truthy user
           then \<lparr>reply = Send 400 (error_body ''Missing user URI''), state = s, calls = []\<rparr>
           else
             case bearer_headers (storedToken s) of
               None \<Rightarrow> failed ''Failed to fetch locations'' s []
             | Some hs \<Rightarrow>
                 (let call = \<lparr>url = ''https://api.calendly.com/locations?user=''
                                     @ encodeURIComponent (param_string user),
                              http_method = ''GET'',
                              headers = hs,
                              json_body = None\<rparr>
                  in case fetch call of
                       FetchThrows \<Rightarrow> failed ''Failed to fetch locations'' s [call]
                     | Response st None \<Rightarrow> failed ''Failed to fetch locations'' s [call]
                     | Response st (Some data) \<Rightarrow>
                         \<lparr>reply = Send 200 data, state = s, calls = [call]\<rparr>))"

text \<open>
  The end of the three handlers that create or update: a response that is not ok is
  relayed with its own status, which \<^verbatim>\<open>reply.status\<close> must accept; when it throws, the
  \<^verbatim>\<open>catch\<close> branch answers 500 with the handler's message.
\<close>

definition relay :: "string \<Rightarrow> server \<Rightarrow> upstream_request \<Rightarrow> nat \<Rightarrow> jsval \<Rightarrow> result" where
  "relay msg s call st data =
     (if \<not> ok st then
        (if accepted_status st then \<lparr>reply = Send st data, state = s, calls = [call]\<rparr>
         else failed msg s [call])
      else \<lparr>reply = Send 200 data, state = s, calls = [call]\<rparr>)"

text \<open>
  \<^verbatim>\<open>fastify.post("/create-event-type")\<close>. The arguments of the call are built inside the
  \<^verbatim>\<open>try\<close>: the spread of \<^verbatim>\<open>req.body\<close> copies nothing from \<^verbatim>\<open>undefined\<close> or \<^verbatim>\<open>null\<close>,
  and the read \<^verbatim>\<open>req.body.active\<close> then throws before any call is made.
\<close>

definition post_create_event_type :: "fetch \<Rightarrow> server \<Rightarrow> request \<Rightarrow> result" where
  "post_create_event_type fetch s req =
     (if \<not> truthy (storedToken s) then no_token s
      else
        case bearer_headers (storedToken s) of
          None \<Rightarrow> failed ''Failed to create event type'' s []
        | Some hs \<Rightarrow>
            (case get_prop (body req) ''active'' of
               None \<Rightarrow> failed ''Failed to create event type'' s []
             | Some active \<Rightarrow>
                 (let call = \<lparr>url = ''https://api.calendly.com/event_types'',
                              http_method = ''POST'',
                              headers = hs,
                              json_body = Some (JObj
                                (set_prop ''active''
                                   (JBool (active = JBool True \<or> active = JStr ''true''))
                                   (own_props (body req))))\<rparr>
                  in case fetch call of
                       FetchThrows \<Rightarrow> failed ''Failed to create event type'' s [call]
                     | Response st None \<Rightarrow> failed ''Failed to create event type'' s [call]
                     | Response st (Some data) \<Rightarrow>
                         relay ''Failed to create event type'' s call st data)))"

text \<open>\<^verbatim>\<open>fastify.get("/list-event-types")\<close>\<close>

definition get_list_event_types :: "fetch \<Rightarrow> server \<Rightarrow> request \<Rightarrow> result" where
  "get_list_event_types fetch s req =
     (if \<not> truthy (storedToken s) then no_token s
      else
        let query_string = form_serialize (URLSearchParams (query req))
        in case bearer_headers (storedToken s) of
             None \<Rightarrow> failed ''Failed to list event types'' s []
           | Some hs \<Rightarrow>
               (let call = \<lparr>url = ''https://api.calendly.com/event_types?'' @ query_string,
                            http_method = ''GET'',
                            headers = hs,
                            json_body = None\<rparr>
                in case fetch call of
                     FetchThrows \<Rightarrow> failed ''Failed to list event types'' s [call]
                   | Response st None \<Rightarrow> failed ''Failed to list event types'' s [call]
                   | Response st (Some data) \<Rightarrow>
                       \<lparr>reply = Send 200 data, state = s, calls = [call]\<rparr>))"

text \<open>\<^verbatim>\<open>fastify.patch("/update-event-type/:uuid")\<close>\<close>

definition patch_update_event_type :: "fetch \<Rightarrow> server \<Rightarrow> request \<Rightarrow> result" where
  "patch_update_event_type fetch s req =
     (if \<not> truthy (storedToken s) then no_token s
      else
        case bearer_headers (storedToken s) of
          None \<Rightarrow> failed ''Failed to update event type'' s []
        | Some hs \<Rightarrow>
            (let call = \<lparr>url = ''https://api.calendly.com/event_types/''
                                @ opt_string (map_of (params req) ''uuid''),
                         http_method = ''PATCH'',
                         headers = hs,
                         json_body = Some (body req)\<rparr>
             in case fetch call of
                  FetchThrows \<Rightarrow> failed ''Failed to update event type'' s [call]
                | Response st None \<Rightarrow> failed ''Failed to update event type'' s [call]
                | Response st (Some data) \<Rightarrow>
                    relay ''Failed to update event type'' s call st data))"

text \<open>\<^verbatim>\<open>fastify.patch("/update-event-availability")\<close>\<close>

definition patch_update_event_availability :: "fetch \<Rightarrow> server \<Rightarrow> request \<Rightarrow> result" where
  "patch_update_event_availability fetch s req =
     (if \<not> truthy (storedToken s) then no_token s
      else
        case bearer_headers (storedToken s) of
          None \<Rightarrow> failed ''Failed to update availability'' s []
        | Some hs \<Rightarrow>
            (let call = \<lparr>url = ''https://api.calendly.com/event_type_availability_schedules'',
                         http_method = ''PATCH'',
                         headers = hs,
                         json_body = Some (body req)\<rparr>
             in case fetch call of
                  FetchThrows \<Rightarrow> failed ''Failed to update availability'' s [call]
                | Response st None \<Rightarrow> failed ''Failed to update availability'' s [call]
                | Response st (Some data) \<Rightarrow>
                    relay ''Failed to update availability'' s call st data))"

text \<open>The routes of the OAuth and event-type part of the server, and their dispatch.\<close>

datatype route =
    Auth
  | Callback
  | Me
  | MeFromStore
  | Locations
  | CreateEventType
  | ListEventTypes
  | UpdateEventType
  | UpdateEventAvailability

fun handle :: "env \<Rightarrow> fetch \<Rightarrow> route \<Rightarrow> server \<Rightarrow> request \<Rightarrow> result" where
  "handle e fetch Auth = get_auth e fetch"
| "handle e fetch Callback = get_callback e fetch"
| "handle e fetch Me = get_me fetch"
| "handle e fetch MeFromStore = get_me_from_store fetch"
| "handle e fetch Locations = get_locations fetch"
| "handle e fetch CreateEventType = post_create_event_type fetch"
| "handle e fetch ListEventTypes = get_list_event_types fetch"
| "handle e fetch UpdateEventType = patch_update_event_type fetch"
| "handle e fetch UpdateEventAvailability = patch_update_event_availability fetch"

text \<open>
  The server handling a sequence of requests, one after the other, each with the upstream
  behaviour of its moment; the result is the module state at the end.
\<close>

fun serve :: "env \<Rightarrow> server \<Rightarrow> (fetch \<times> route \<times> request) list \<Rightarrow> server" where
  "serve e s [] = s"
| "serve e s ((fetch, r, req) # rest) = serve e (state (handle e fetch r s req)) rest"

text \<open>
  The conditions under which a request gets as far as the upstream: the guards of the
  route's handler pass and the arguments of its \<^verbatim>\<open>fetch\<close> can be built. \<^verbatim>\<open>/auth\<close> never
  calls; \<^verbatim>\<open>/callback\<close> and \<^verbatim>\<open>/me\<close> always do; the other routes need a stored token that
  is truthy and that the template literal of the header can render, \<^verbatim>\<open>/locations\<close> also
  a truthy \<^verbatim>\<open>user\<close> parameter, and \<^verbatim>\<open>/create-event-type\<close> also a body that is neither
  \<^verbatim>\<open>undefined\<close> nor \<^verbatim>\<open>null\<close>.
\<close>

definition usable_token :: "server \<Rightarrow> bool" where
  "usable_token s = (truthy (storedToken s) \<and> to_string (storedToken s) \<noteq> None)"

fun forwards :: "route \<Rightarrow> server \<Rightarrow> request \<Rightarrow> bool" where
  "forwards Auth s req = False"
| "forwards Callback s req = True"
| "forwards Me s req = True"
| "forwards MeFromStore s req = usable_token s"
| "forwards Locations s req = (usable_token s \<and> param_truthy (map_of (query req) ''user''))"
| "forwards CreateEventType s req = (usable_token s \<and> get_prop (body req) ''active'' \<noteq> None)"
| "forwards ListEventTypes s req = usable_token s"
| "forwards UpdateEventType s req = usable_token s"
| "forwards UpdateEventAvailability s req = usable_token s"

section \<open>Reading a query string back\<close>

text \<open>
  How the receiver of a URL reads its query string (the parser of
  \<^verbatim>\<open>application/x-www-form-urlencoded\<close>): the part after the first \<^verbatim>\<open>?\<close> is cut at
  every \<^verbatim>\<open>&\<close>, empty pieces are dropped, each piece is cut at its first \<^verbatim>\<open>=\<close>, and in
  name and value a \<^verbatim>\<open>+\<close> is a space and \<^verbatim>\<open>%XY\<close> is the byte with that hexadecimal code.
\<close>

definition unhex :: "char \<Rightarrow> nat option" where
  "unhex c =
     (let n = (of_char c :: nat)
      in if 48 \<le> n \<and> n \<le> 57 then Some (n - 48)
         else if 65 \<le> n \<and> n \<le> 70 then Some (n - 55)
         else if 97 \<le> n \<and> n \<le> 102 then Some (n - 87)
         else None)"

fun percent_decode :: "string \<Rightarrow> string" where
  "percent_decode [] = []"
| "percent_decode (c # cs) =
     (if c = CHR ''%'' then
        (case cs of
           h # l # rest \<Rightarrow>
             (case (unhex h, unhex l) of
                (Some a, Some b) \<Rightarrow> char_of (16 * a + b) # percent_decode rest
              | _ \<Rightarrow> c # percent_decode cs)
         | _ \<Rightarrow> c # percent_decode cs)
      else c # percent_decode cs)"

definition form_decode :: "string \<Rightarrow> string" where
  "form_decode s = percent_decode (map (\<lambda>c. if c = CHR ''+'' then CHR '' '' else c) s)"

fun split_on :: "char \<Rightarrow> string \<Rightarrow> string list" where
  "split_on d [] = [[]]"
| "split_on d (c # cs) =
     (if c = d then [] # split_on d cs
      else (case split_on d cs of
              [] \<Rightarrow> [[c]]
            | piece # pieces \<Rightarrow> (c # piece) # pieces))"

definition parse_urlencoded :: "string \<Rightarrow> (string \<times> string) list" where
  "parse_urlencoded s =
     map (\<lambda>piece. (form_decode (takeWhile (\<lambda>c. c \<noteq> CHR ''='') piece),
                    form_decode (drop 1 (dropWhile (\<lambda>c. c \<noteq> CHR ''='') piece))))
       (filter (\<lambda>piece. piece \<noteq> []) (split_on CHR ''&'' s))"

definition upstream_query :: "upstream_request \<Rightarrow> string" where
  "upstream_query c = drop 1 (dropWhile (\<lambda>c. c \<noteq> CHR ''?'') (url c))"

text \<open>
  The parameters a \<^verbatim>\<open>req.query\<close> object stands for: the framework's query parser gives a
  parameter that occurs once its string, and a repeated parameter the array of its
  values.
\<close>

fun param_values :: "qval \<Rightarrow> string list" where
  "param_values (QArr xs) = xs"
| "param_values (QStr x) = [x]"

definition query_pairs :: "(string \<times> qval) list \<Rightarrow> (string \<times> string) list" where
  "query_pairs q = concat (map (\<lambda>(k, v). map (Pair k) (param_values v)) q)"

fun is_string :: "qval \<Rightarrow> bool" where
  "is_string (QStr x) = True"
| "is_string (QArr xs) = False"

text \<open>The routes that read \<^verbatim>\<open>storedToken\<close>, and the header a call carries.\<close>

definition token_routes :: "route set" where
  "token_routes =
     {MeFromStore, Locations, CreateEventType, ListEventTypes, UpdateEventType,
      UpdateEventAvailability}"

definition authorization :: "upstream_request \<Rightarrow> string option" where
  "authorization c = map_of (headers c) ''Authorization''"

section \<open>Sample inputs\<close>

text \<open>Concrete environments, upstream behaviours, states and requests for the examples.\<close>

definition sample_env :: env where
  "sample_env =
     \<lparr>CLIENT_ID = Some ''client-1'', CLIENT_SECRET = Some ''secret-1'',
      REDIRECT_URI = Some ''https://relay.example/callback''\<rparr>"

definition upstream_down :: fetch where
  "upstream_down c = FetchThrows"

definition upstream_not_json :: fetch where
  "upstream_not_json c = Response 502 None"

definition upstream_null :: fetch where
  "upstream_null c = Response 200 (Some JNull)"

definition upstream_grant :: fetch where
  "upstream_grant c =
     Response 200 (Some (JObj [(''token_type'', JStr ''Bearer''), (''access_token'', JStr ''T1'')]))"

definition upstream_422 :: fetch where
  "upstream_422 c = Response 422 (Some (JObj [(''title'', JStr ''Invalid Argument'')]))"

definition upstream_404 :: fetch where
  "upstream_404 c = Response 404 (Some (JObj [(''title'', JStr ''Resource Not Found'')]))"

definition upstream_600 :: fetch where
  "upstream_600 c = Response 600 (Some (JObj [(''title'', JStr ''Out of range'')]))"

definition logged_in :: server where
  "logged_in = \<lparr>storedToken = JStr ''T0''\<rparr>"

definition empty_request :: request where
  "empty_request = \<lparr>query = [], params = [], body = JUndefined\<rparr>"

definition code_request :: request where
  "code_request = \<lparr>query = [(''code'', QStr ''c0de'')], params = [], body = JUndefined\<rparr>"

definition user_request :: request where
  "user_request =
     \<lparr>query = [(''user'', QStr ''https://api.calendly.com/users/U 1'')], params = [],
      body = JUndefined\<rparr>"

definition create_request :: request where
  "create_request =
     \<lparr>query = [], params = [],
      body = JObj [(''name'', JStr ''Intro call''), (''active'', JStr ''true''),
                   (''duration'', JNum ''30'')]\<rparr>"


definition update_request :: request where
  "update_request =
     \<lparr>query = [], params = [(''uuid'', ''abc-123'')],
      body = JObj [(''duration'', JNum ''0'')]\<rparr>"

definition paged_request :: request where
  "paged_request =
     \<lparr>query = [(''count'', QStr ''5''), (''page_token'', QStr ''abc'')], params = [],
      body = JUndefined\<rparr>"

definition repeated_request :: request where
  "repeated_request =
     \<lparr>query = [(''a'', QArr [''1'', ''2''])], params = [], body = JUndefined\<rparr>"

section \<open>A serialised query string reads back as the pairs it was built from\<close>

lemma of_char_lt_256: "(of_char c :: nat) < 256"
  by (metis of_char_mod_256 mod_less_divisor zero_less_numeral)

lemma unhex_hex_digit: "d < 16 \<Longrightarrow> unhex (hex_digit d) = Some d"
  by (simp add: unhex_def hex_digit_def Let_def)

lemma hex_digit_alnum: "d < 16 \<Longrightarrow> is_alnum (hex_digit d)"
  by (auto simp add: is_alnum_def hex_digit_def Let_def)

lemma alnum_not_special:
  "is_alnum c \<Longrightarrow> c \<noteq> CHR ''%'' \<and> c \<noteq> CHR ''+'' \<and> c \<noteq> CHR ''&'' \<and> c \<noteq> CHR ''=''"
  by (auto simp add: is_alnum_def Let_def)

lemma percent_decode_percent_byte:
  "percent_decode (percent_byte c @ rest) = c # percent_decode rest"
proof -
  have lt: "(of_char c :: nat) div 16 < 16" "(of_char c :: nat) mod 16 < 16"
    using of_char_lt_256 [of c] by (simp_all add: less_mult_imp_div_less)
  have "char_of (16 * ((of_char c :: nat) div 16) + (of_char c :: nat) mod 16) = c"
    by simp
  then show ?thesis
    by (simp add: percent_byte_def unhex_hex_digit lt)
qed


lemma percent_byte_chars:
  "x \<in> set (percent_byte c) \<Longrightarrow> x = CHR ''%'' \<or> is_alnum x"
proof -
  have lt: "(of_char c :: nat) div 16 < 16" "(of_char c :: nat) mod 16 < 16"
    using of_char_lt_256 [of c] by (simp_all add: less_mult_imp_div_less)
  assume "x \<in> set (percent_byte c)"
  then show ?thesis
    using hex_digit_alnum [OF lt(1)] hex_digit_alnum [OF lt(2)]
    by (auto simp add: percent_byte_def)
qed

lemma form_byte_chars:
  "x \<in> set (form_byte c) \<Longrightarrow> x \<noteq> CHR ''&'' \<and> x \<noteq> CHR ''=''"
  using alnum_not_special [of x] percent_byte_chars [of x c]
  by (auto simp add: form_byte_def split: if_splits)

lemma form_encode_chars:
  "x \<in> set (form_encode s) \<Longrightarrow> x \<noteq> CHR ''&'' \<and> x \<noteq> CHR ''=''"
  using form_byte_chars by (auto simp add: form_encode_def)

lemma plus_to_space_percent_byte:
  "map (\<lambda>c. if c = CHR ''+'' then CHR '' '' else c) (percent_byte c) = percent_byte c"
proof -
  have "\<forall>x \<in> set (percent_byte c). x \<noteq> CHR ''+''"
    using percent_byte_chars alnum_not_special by fastforce
  then show ?thesis
    by (simp add: map_idI)
qed

lemma form_decode_form_byte:
  "form_decode (form_byte c @ rest) = c # form_decode rest"
proof (cases "is_alnum c \<or> c \<in> set ''*-._''")
  case True
  then have "c \<noteq> CHR ''%''" "c \<noteq> CHR ''+''"
    using alnum_not_special [of c] by auto
  with True show ?thesis
    by (simp add: form_byte_def form_decode_def)
next
  case False
  show ?thesis
  proof (cases "c = CHR '' ''")
    case True
    with False show ?thesis
      by (simp add: form_byte_def form_decode_def)
  next
    case space: False
    with False have "form_byte c = percent_byte c"
      by (simp add: form_byte_def)
    then show ?thesis
      by (simp add: form_decode_def plus_to_space_percent_byte percent_decode_percent_byte)
  qed
qed

lemma form_decode_form_encode: "form_decode (form_encode s) = s"
proof (induction s)
  case Nil
  show ?case by (simp add: form_encode_def form_decode_def)
next
  case (Cons c s)
  have "form_encode (c # s) = form_byte c @ form_encode s"
    by (simp add: form_encode_def)
  with Cons show ?case
    by (simp add: form_decode_form_byte)
qed

lemma split_on_nonempty: "split_on d s \<noteq> []"
  by (induction s) (auto split: list.splits)

lemma split_on_single: "d \<notin> set a \<Longrightarrow> split_on d a = [a]"
  by (induction a) auto

lemma split_on_append:
  "d \<notin> set a \<Longrightarrow> split_on d (a @ d # rest) = a # split_on d rest"
  by (induction a) (auto split: list.splits simp add: split_on_nonempty)

lemma split_on_join:
  "\<forall>p \<in> set ps. CHR ''&'' \<notin> set p \<Longrightarrow> ps \<noteq> [] \<Longrightarrow> split_on CHR ''&'' (join ''&'' ps) = ps"
proof (induction ps)
  case Nil
  then show ?case by simp
next
  case (Cons p ps)
  show ?case
  proof (cases ps)
    case Nil
    with Cons.prems show ?thesis by (simp add: split_on_single)
  next
    case (Cons q qs)
    with Cons.IH Cons.prems show ?thesis by (simp add: split_on_append)
  qed
qed

lemma parse_piece_name:
  "form_decode (takeWhile (\<lambda>c. c \<noteq> CHR ''='') (form_encode k @ CHR ''='' # form_encode v)) = k"
proof -
  have "\<forall>x \<in> set (form_encode k). x \<noteq> CHR ''=''"
    using form_encode_chars by blast
  then have "takeWhile (\<lambda>c. c \<noteq> CHR ''='') (form_encode k @ CHR ''='' # form_encode v)
      = form_encode k"
    by simp
  then show ?thesis
    by (simp add: form_decode_form_encode)
qed

lemma parse_piece_value:
  "form_decode (drop (Suc 0) (dropWhile (\<lambda>c. c \<noteq> CHR ''='')
     (form_encode k @ CHR ''='' # form_encode v))) = v"
proof -
  have "\<forall>x \<in> set (form_encode k). x \<noteq> CHR ''=''"
    using form_encode_chars by blast
  then have "dropWhile (\<lambda>c. c \<noteq> CHR ''='') (form_encode k @ CHR ''='' # form_encode v)
      = CHR ''='' # form_encode v"
    by simp
  then show ?thesis
    by (simp add: form_decode_form_encode)
qed

lemma parse_form_serialize: "parse_urlencoded (form_serialize ps) = ps"
proof (cases "ps = []")
  case True
  then show ?thesis
    by (simp add: parse_urlencoded_def form_serialize_def)
next
  case False
  let ?pieces = "map (\<lambda>(k, v). form_encode k @ ''='' @ form_encode v) ps"
  have amp: "\<forall>p \<in> set ?pieces. CHR ''&'' \<notin> set p"
    using form_encode_chars by (auto simp add: image_iff)
  have ne: "\<forall>p \<in> set ?pieces. p \<noteq> []"
    by auto
  have "split_on CHR ''&'' (form_serialize ps) = ?pieces"
    unfolding form_serialize_def using amp False by (intro split_on_join) auto
  moreover have "filter (\<lambda>p. p \<noteq> []) ?pieces = ?pieces"
    using ne by (simp only: filter_id_conv) 
  ultimately have "parse_urlencoded (form_serialize ps)
      = map (\<lambda>p. (form_decode (takeWhile (\<lambda>c. c \<noteq> CHR ''='') p),
                    form_decode (drop 1 (dropWhile (\<lambda>c. c \<noteq> CHR ''='') p)))) ?pieces"
    by (simp only: parse_urlencoded_def)
  also have "\<dots> = ps"
    by (simp add: comp_def case_prod_beta parse_piece_name parse_piece_value)
  finally show ?thesis .
qed


section \<open>Facts about the handlers\<close>

lemmas handler_defs =
  get_auth_def get_callback_def get_me_def get_me_from_store_def get_locations_def
  post_create_event_type_def get_list_event_types_def patch_update_event_type_def
  patch_update_event_availability_def no_token_def failed_def error_body_def relay_def

lemma handle_keeps_state: "r \<noteq> Callback \<Longrightarrow> state (handle e fetch r s req) = s"
  by (cases r) (simp_all add: handler_defs Let_def split: fetch_result.splits option.splits)

lemma serve_without_callback:
  "Callback \<notin> (fst \<circ> snd) ` set history \<Longrightarrow> serve e s history = s"
  by (induction history arbitrary: s) (auto simp add: handle_keeps_state)

lemma no_login_no_token:
  "Callback \<notin> (fst \<circ> snd) ` set history \<Longrightarrow> storedToken (serve e initial history) = JNull"
  by (simp add: serve_without_callback initial_def)

lemma absent_parameter: "k \<notin> fst ` set q \<Longrightarrow> map_of q k = None"
  by (simp add: map_of_eq_None_iff)



lemma URLSearchParams_strings:
  "list_all (is_string \<circ> snd) q \<Longrightarrow> URLSearchParams q = query_pairs q"
proof (induction q)
  case Nil
  show ?case by (simp add: URLSearchParams_def query_pairs_def)
next
  case (Cons p q)
  obtain k v where p: "p = (k, v)" by (cases p)
  with Cons.prems obtain x where "v = QStr x" by (cases v) auto
  with p Cons show ?case by (simp add: URLSearchParams_def query_pairs_def)
qed

text \<open>
  A token response whose body is the JSON document \<^verbatim>\<open>null\<close>: the read of
  \<^verbatim>\<open>data.access_token\<close> throws inside the \<^verbatim>\<open>try\<close>, so the reply is the 500 of the
  \<^verbatim>\<open>catch\<close> branch and the stored token stays.
\<close>

lemma callback_null_body:
  "reply (get_callback sample_env upstream_null logged_in code_request)
     = Send 500 (JObj [(''error'', JStr ''Token exchange failed'')])
   \<and> state (get_callback sample_env upstream_null logged_in code_request) = logged_in"
  by (simp add: handler_defs upstream_null_def)

text \<open>
  A stored token that the template literal of the header cannot render, here the parsed
  object \<^verbatim>\<open>{"toString": 1}\<close>: the handler answers 500 from its \<^verbatim>\<open>catch\<close> branch and
  calls nothing.
\<close>

lemma unprintable_token:
  "get_me_from_store upstream_404 \<lparr>storedToken = JObj [(''toString'', JNum ''1'')]\<rparr> empty_request
     = \<lparr>reply = Send 500 (JObj [(''error'', JStr ''Failed to fetch user info'')]),
        state = \<lparr>storedToken = JObj [(''toString'', JNum ''1'')]\<rparr>, calls = []\<rparr>"
  by (simp add: handler_defs bearer_headers_def)

lemma authorization_bearer [simp]:
  "authorization \<lparr>url = u, http_method = m, headers = bearer x, json_body = b\<rparr>
     = Some (''Bearer '' @ x)"
  by (simp add: authorization_def bearer_def)


lemma not_forwards_no_call:
  "\<not> forwards r s req \<Longrightarrow> calls (handle e fetch r s req) = []"
  by (cases r)
    (auto simp add: handler_defs usable_token_def bearer_headers_def Let_def
      split: fetch_result.splits option.splits)



lemma locations_example:
  "forwards Locations logged_in user_request
   \<and> map url (calls (handle sample_env upstream_404 Locations logged_in user_request))
       = [''https://api.calendly.com/locations?user=https%3A%2F%2Fapi.calendly.com%2Fusers%2FU%201'']
   \<and> reply (handle sample_env upstream_404 Locations logged_in user_request)
       = Send 200 (JObj [(''title'', JStr ''Resource Not Found'')])"
  by code_simp


section \<open>The claims\<close>

text \<open>
  C1, as stated: a request to \<^verbatim>\<open>/locations\<close> without a \<^verbatim>\<open>user\<close> parameter is answered
  400 whatever the stored token. It is not: the handler tests the token first, so with no
  token stored the answer is 401.
\<close>

theorem locations_missing_user_counterexample:
  "''user'' \<notin> fst ` set (query empty_request) \<and>
   status (reply (get_locations upstream_down initial empty_request)) \<noteq> 400"
  by (simp add: empty_request_def initial_def handler_defs)

text \<open>
  C1, amended: a request to \<^verbatim>\<open>/locations\<close> whose query has no \<^verbatim>\<open>user\<close> parameter is
  answered 400 with \<^verbatim>\<open>{error: "Missing user URI"}\<close> when a token is stored, and 401 with
  \<^verbatim>\<open>{error: "No token stored yet"}\<close> when none is; in both cases no upstream call is made
  and the state is unchanged.
\<close>

theorem locations_missing_user:
  assumes "''user'' \<notin> fst ` set (query req)"
  shows "get_locations fetch s req =
    (if truthy (storedToken s)
     then \<lparr>reply = Send 400 (JObj [(''error'', JStr ''Missing user URI'')]), state = s, calls = []\<rparr>
     else \<lparr>reply = Send 401 (JObj [(''error'', JStr ''No token stored yet'')]), state = s, calls = []\<rparr>)"
  using absent_parameter [OF assms] by (simp add: handler_defs)

theorem locations_missing_user_witness:
  "''user'' \<notin> fst ` set (query paged_request) \<and>
   get_locations upstream_grant logged_in paged_request =
     \<lparr>reply = Send 400 (JObj [(''error'', JStr ''Missing user URI'')]),
      state = logged_in, calls = []\<rparr>"
  using locations_missing_user [of paged_request upstream_grant logged_in]
  by (simp add: paged_request_def logged_in_def)

text \<open>
  C2. On each route that needs the stored token (\<^verbatim>\<open>/me-from-store\<close>, \<^verbatim>\<open>/locations\<close>,
  \<^verbatim>\<open>/create-event-type\<close>, \<^verbatim>\<open>/list-event-types\<close>, \<^verbatim>\<open>/update-event-type/:uuid\<close>,
  \<^verbatim>\<open>/update-event-availability\<close>), when no token is stored (the variable holds its
  initial \<^verbatim>\<open>null\<close>, or any other falsy value), the reply is status 401 with the body
  \<^verbatim>\<open>{error: "No token stored yet"}\<close>, no upstream call is made and the state is unchanged.
\<close>

theorem no_token_unauthorized:
  assumes "r \<in> token_routes" and "\<not> truthy (storedToken s)"
  shows "handle e fetch r s req =
    \<lparr>reply = Send 401 (JObj [(''error'', JStr ''No token stored yet'')]), state = s, calls = []\<rparr>"
  using assms by (cases r) (simp_all add: token_routes_def handler_defs)

theorem no_token_unauthorized_witness:
  "MeFromStore \<in> token_routes \<and> \<not> truthy (storedToken initial) \<and>
   handle sample_env upstream_grant MeFromStore initial empty_request =
     \<lparr>reply = Send 401 (JObj [(''error'', JStr ''No token stored yet'')]),
      state = initial, calls = []\<rparr>"
  using no_token_unauthorized [of MeFromStore initial sample_env upstream_grant empty_request]
  by (simp add: token_routes_def initial_def)



text \<open>
  C4, as stated: on the create and update routes every upstream response that is not ok
  is relayed with its own status and body. It is not when \<^verbatim>\<open>reply.status\<close> refuses the
  status: for an upstream status of 600 the call \<^verbatim>\<open>reply.status(600)\<close> throws inside the
  \<^verbatim>\<open>try\<close>, and the \<^verbatim>\<open>catch\<close> branch answers 500 with the handler's own message.
\<close>

theorem upstream_failure_relayed_counterexample:
  "forwards UpdateEventType logged_in update_request
   \<and> length (calls (handle sample_env upstream_600 UpdateEventType logged_in update_request)) = 1
   \<and> upstream_600 (hd (calls (handle sample_env upstream_600 UpdateEventType logged_in update_request)))
       = Response 600 (Some (JObj [(''title'', JStr ''Out of range'')]))
   \<and> \<not> ok 600
   \<and> reply (handle sample_env upstream_600 UpdateEventType logged_in update_request)
       = Send 500 (JObj [(''error'', JStr ''Failed to update event type'')])"
  by (simp add: logged_in_def update_request_def upstream_600_def handler_defs ok_def
      accepted_status_def usable_token_def bearer_headers_def)

text \<open>
  C4, amended: on \<^verbatim>\<open>/create-event-type\<close>, \<^verbatim>\<open>/update-event-type/:uuid\<close> and
  \<^verbatim>\<open>/update-event-availability\<close>, a request that gets as far as the upstream makes one
  call; when that call resolves to a response with a JSON body and a status that is not
  ok and lies between 100 and 599, the reply has that status and that body.
\<close>

theorem upstream_failure_relayed:
  assumes "r \<in> {CreateEventType, UpdateEventType, UpdateEventAvailability}"
    and "forwards r s req"
  shows "\<exists>c. calls (handle e fetch r s req) = [c]
    \<and> (\<forall>st d. fetch c = Response st (Some d) \<and> \<not> ok st \<and> 100 \<le> st \<and> st \<le> 599 \<longrightarrow>
          reply (handle e fetch r s req) = Send st d)"
  using assms
  by (cases r)
    (auto simp add: handler_defs usable_token_def bearer_headers_def accepted_status_def Let_def
      split: fetch_result.splits option.splits)

theorem upstream_failure_relayed_witness:
  "UpdateEventType \<in> {CreateEventType, UpdateEventType, UpdateEventAvailability}
   \<and> forwards UpdateEventType logged_in update_request
   \<and> length (calls (handle sample_env upstream_422 UpdateEventType logged_in update_request)) = 1
   \<and> upstream_422 (hd (calls (handle sample_env upstream_422 UpdateEventType logged_in update_request)))
       = Response 422 (Some (JObj [(''title'', JStr ''Invalid Argument'')]))
   \<and> \<not> ok 422
   \<and> reply (handle sample_env upstream_422 UpdateEventType logged_in update_request)
       = Send 422 (JObj [(''title'', JStr ''Invalid Argument'')])"
  using upstream_failure_relayed
    [of UpdateEventType logged_in update_request sample_env upstream_422]
  by (auto simp add: logged_in_def update_request_def upstream_422_def ok_def
      usable_token_def)

text \<open>
  C5. \<^verbatim>\<open>/callback\<close> makes one call, to the token endpoint. If the call resolves to a JSON
  document \<open>d\<close> from which \<^verbatim>\<open>access_token\<close> is read as \<open>t\<close>, the reply is the redirect
  to \<^verbatim>\<open>/dashboard.html\<close> and the state afterwards holds \<open>t\<close> and nothing else. If the
  \<^verbatim>\<open>fetch\<close> throws, or the parsing of the response as JSON throws, the reply is 500 with
  \<^verbatim>\<open>{error: "Token exchange failed"}\<close> and the state is unchanged.
\<close>

theorem callback_exchange:
  "\<exists>c. calls (get_callback e fetch s req) = [c]
     \<and> url c = ''https://auth.calendly.com/oauth/token''
     \<and> (\<forall>st d t. fetch c = Response st (Some d) \<and> get_prop d ''access_token'' = Some t \<longrightarrow>
            reply (get_callback e fetch s req) = Redirect ''/dashboard.html''
            \<and> state (get_callback e fetch s req) = \<lparr>storedToken = t\<rparr>)
     \<and> (fetch c = FetchThrows \<or> (\<exists>st. fetch c = Response st None) \<longrightarrow>
            reply (get_callback e fetch s req)
              = Send 500 (JObj [(''error'', JStr ''Token exchange failed'')])
            \<and> state (get_callback e fetch s req) = s)"
  by (auto simp add: handler_defs Let_def split: fetch_result.splits option.splits)

theorem callback_exchange_witness:
  "(\<exists>c. calls (get_callback sample_env upstream_grant logged_in code_request) = [c]
      \<and> upstream_grant c
          = Response 200 (Some (JObj [(''token_type'', JStr ''Bearer''), (''access_token'', JStr ''T1'')]))
      \<and> get_prop (JObj [(''token_type'', JStr ''Bearer''), (''access_token'', JStr ''T1'')])
           ''access_token'' = Some (JStr ''T1''))
   \<and> reply (get_callback sample_env upstream_grant logged_in code_request)
       = Redirect ''/dashboard.html''
   \<and> state (get_callback sample_env upstream_grant logged_in code_request)
       = \<lparr>storedToken = JStr ''T1''\<rparr>
   \<and> (\<exists>c. calls (get_callback sample_env upstream_down logged_in code_request) = [c]
      \<and> upstream_down c = FetchThrows)
   \<and> reply (get_callback sample_env upstream_down logged_in code_request)
       = Send 500 (JObj [(''error'', JStr ''Token exchange failed'')])
   \<and> state (get_callback sample_env upstream_down logged_in code_request) = logged_in
   \<and> (\<exists>c. calls (get_callback sample_env upstream_not_json logged_in code_request) = [c]
      \<and> upstream_not_json c = Response 502 None)
   \<and> reply (get_callback sample_env upstream_not_json logged_in code_request)
       = Send 500 (JObj [(''error'', JStr ''Token exchange failed'')])
   \<and> state (get_callback sample_env upstream_not_json logged_in code_request) = logged_in"
  using callback_exchange [of sample_env upstream_grant logged_in code_request]
    callback_exchange [of sample_env upstream_down logged_in code_request]
    callback_exchange [of sample_env upstream_not_json logged_in code_request]
  by (auto simp add: upstream_grant_def upstream_down_def upstream_not_json_def lookup_def)



text \<open>
  C7, as stated: \<^verbatim>\<open>/list-event-types\<close> forwards every parameter of the inbound query
  unchanged. It does not when a parameter is repeated: the framework gives the handler the
  array of its values, \<^verbatim>\<open>URLSearchParams\<close> renders the array as one string, and the
  upstream receives one parameter whose value is the values joined by commas.
\<close>

theorem list_event_types_query_counterexample:
  "truthy (storedToken logged_in)
   \<and> query_pairs (query repeated_request) = [(''a'', ''1''), (''a'', ''2'')]
   \<and> length (calls (get_list_event_types upstream_404 logged_in repeated_request)) = 1
   \<and> url (hd (calls (get_list_event_types upstream_404 logged_in repeated_request)))
       = ''https://api.calendly.com/event_types?a=1%2C2''
   \<and> parse_urlencoded (upstream_query
         (hd (calls (get_list_event_types upstream_404 logged_in repeated_request))))
       = [(''a'', ''1,2'')]"
  by code_simp

text \<open>
  C7, amended: when a token is stored that the header can render, and every parameter of
  the inbound query occurs once (each value of \<^verbatim>\<open>req.query\<close> is a string),
  \<^verbatim>\<open>/list-event-types\<close> makes one upstream call, to the \<^verbatim>\<open>event_types\<close> endpoint, whose
  query string reads back as exactly the inbound parameters, names and values unchanged
  and in the order of \<^verbatim>\<open>req.query\<close>; so \<^verbatim>\<open>?count=5&page_token=abc\<close> is forwarded as
  \<^verbatim>\<open>count=5&page_token=abc\<close>.
\<close>

theorem list_event_types_query_forwarded:
  assumes "truthy (storedToken s)"
    and "to_string (storedToken s) = Some x"
    and "list_all (is_string \<circ> snd) (query req)"
  shows "\<exists>c. calls (get_list_event_types fetch s req) = [c]
    \<and> url c = ''https://api.calendly.com/event_types?'' @ upstream_query c
    \<and> parse_urlencoded (upstream_query c) = query_pairs (query req)
    \<and> query_pairs (query req) = map (\<lambda>(k, v). (k, qval_string v)) (query req)"
proof -
  let ?qs = "form_serialize (URLSearchParams (query req))"
  let ?c = "\<lparr>url = ''https://api.calendly.com/event_types?'' @ ?qs, http_method = ''GET'',
             headers = bearer x, json_body = None\<rparr>"
  have calls: "calls (get_list_event_types fetch s req) = [?c]"
    using assms(1,2)
    by (simp add: handler_defs bearer_headers_def Let_def
        split: fetch_result.splits option.splits)
  have q: "upstream_query ?c = ?qs"
    by (simp add: upstream_query_def)
  have pairs: "URLSearchParams (query req) = query_pairs (query req)"
    using assms(3) by (rule URLSearchParams_strings)
  then have "parse_urlencoded ?qs = query_pairs (query req)"
    by (simp add: parse_form_serialize)
  moreover have "query_pairs (query req) = map (\<lambda>(k, v). (k, qval_string v)) (query req)"
    using pairs by (simp add: URLSearchParams_def)
  ultimately show ?thesis
    using calls q by simp
qed

theorem list_event_types_query_forwarded_witness:
  "truthy (storedToken logged_in)
   \<and> to_string (storedToken logged_in) = Some ''T0''
   \<and> list_all (is_string \<circ> snd) (query paged_request)
   \<and> map url (calls (get_list_event_types upstream_404 logged_in paged_request))
       = [''https://api.calendly.com/event_types?count=5&page_token=abc'']
   \<and> map (\<lambda>c. parse_urlencoded (upstream_query c))
         (calls (get_list_event_types upstream_404 logged_in paged_request))
       = [[(''count'', ''5''), (''page_token'', ''abc'')]]"
  using list_event_types_query_forwarded [of logged_in "''T0''" paged_request upstream_404]
  by (auto simp add: logged_in_def paged_request_def upstream_404_def handler_defs
      bearer_headers_def query_pairs_def URLSearchParams_def form_serialize_def
      form_encode_def form_byte_def is_alnum_def upstream_query_def)

text \<open>
  C8. Every route but \<^verbatim>\<open>/callback\<close> leaves the module state as it was, whatever the
  upstream does. \<^verbatim>\<open>/callback\<close> either leaves it as it was, or its token call resolved to
  a document whose \<^verbatim>\<open>access_token\<close> was read as \<open>t\<close>, and the state afterwards holds
  \<open>t\<close> alone: the token stored before is gone.
\<close>

theorem stored_token_written_only_by_callback:
  "(r \<noteq> Callback \<longrightarrow> state (handle e fetch r s req) = s)
   \<and> (state (handle e fetch Callback s req) = s
      \<or> (\<exists>c st d t. calls (handle e fetch Callback s req) = [c]
            \<and> fetch c = Response st (Some d)
            \<and> get_prop d ''access_token'' = Some t
            \<and> reply (handle e fetch Callback s req) = Redirect ''/dashboard.html''
            \<and> state (handle e fetch Callback s req) = \<lparr>storedToken = t\<rparr>))"
proof -
  have "state (get_callback e fetch s req) = s
      \<or> (\<exists>c st d t. calls (get_callback e fetch s req) = [c]
            \<and> fetch c = Response st (Some d)
            \<and> get_prop d ''access_token'' = Some t
            \<and> reply (get_callback e fetch s req) = Redirect ''/dashboard.html''
            \<and> state (get_callback e fetch s req) = \<lparr>storedToken = t\<rparr>)"
    by (auto simp add: handler_defs Let_def split: fetch_result.splits option.splits)
  then show ?thesis
    by (simp add: handle_keeps_state)
qed

theorem stored_token_written_only_by_callback_witness:
  "CreateEventType \<noteq> Callback
   \<and> state (handle sample_env upstream_422 CreateEventType logged_in create_request) = logged_in
   \<and> state (handle sample_env upstream_grant Callback logged_in code_request)
       = \<lparr>storedToken = JStr ''T1''\<rparr>
   \<and> state (handle sample_env upstream_down Callback logged_in code_request) = logged_in"
  using stored_token_written_only_by_callback
      [of CreateEventType sample_env upstream_422 logged_in create_request]
  by (simp add: handler_defs upstream_grant_def upstream_down_def lookup_def logged_in_def)



text \<open>
  C10. On \<^verbatim>\<open>/me\<close>, \<^verbatim>\<open>/me-from-store\<close>, \<^verbatim>\<open>/locations\<close> and \<^verbatim>\<open>/list-event-types\<close>, a request
  that gets as far as the upstream (every request on \<^verbatim>\<open>/me\<close>; with a usable stored token
  on the others, and a \<^verbatim>\<open>user\<close> on \<^verbatim>\<open>/locations\<close>) makes one call; when that call resolves
  to a response with a JSON body, the reply has status 200 and that body, whatever the
  status of the upstream response.
\<close>

theorem read_routes_reply_200:
  assumes "r \<in> {Me, MeFromStore, Locations, ListEventTypes}"
    and "forwards r s req"
  shows "\<exists>c. calls (handle e fetch r s req) = [c]
    \<and> (\<forall>st d. fetch c = Response st (Some d) \<longrightarrow> reply (handle e fetch r s req) = Send 200 d)"
  using assms
  by (cases r)
    (auto simp add: handler_defs usable_token_def bearer_headers_def Let_def
      split: fetch_result.splits option.splits)

theorem read_routes_reply_200_witness:
  "Locations \<in> {Me, MeFromStore, Locations, ListEventTypes}
   \<and> forwards Locations logged_in user_request
   \<and> map url (calls (handle sample_env upstream_404 Locations logged_in user_request))
       = [''https://api.calendly.com/locations?user=https%3A%2F%2Fapi.calendly.com%2Fusers%2FU%201'']
   \<and> upstream_404 (hd (calls (handle sample_env upstream_404 Locations logged_in user_request)))
       = Response 404 (Some (JObj [(''title'', JStr ''Resource Not Found'')]))
   \<and> \<not> ok 404
   \<and> reply (handle sample_env upstream_404 Locations logged_in user_request)
       = Send 200 (JObj [(''title'', JStr ''Resource Not Found'')])"
  using read_routes_reply_200 [of Locations logged_in user_request sample_env upstream_404]
    locations_example
  by (simp add: upstream_404_def ok_def)

end
